theory Spec2Isabelle
  imports Complex_Main
begin

section \<open>The retrying HTTP client of \<^verbatim>\<open>api_integration.py\<close>\<close>

text \<open>
  The development embeds the retry helpers and \<^verbatim>\<open>SyndigoClient.request\<close>.
  Python integers are \<^typ>\<open>int\<close>. Python floats are \<^typ>\<open>real\<close>; the two places where
  a float operation raises instead of returning (an integer too large to convert, and
  \<^verbatim>\<open>int\<close> of an infinity) are branches of the model. With the default
  \<^verbatim>\<open>base = 0.5\<close> and \<^verbatim>\<open>cap = 4.0\<close> every product below is a power of
  two times \<open>1\<close> or \<open>3\<close>, so the real value is the float value.

  Everything outside the program is an input of the model: what the transport does on
  the n-th physical attempt, the string \<^verbatim>\<open>uuid.uuid4()\<close> returns there, and the
  number \<^verbatim>\<open>random.random()\<close> draws there. The calls of \<^verbatim>\<open>kvlog\<close> and the
  wall-clock measurements only feed the log and are left out; the method, URL,
  parameters and body are handed to the transport unchanged on every attempt and are
  left out as well.
\<close>

subsection \<open>Retry and backoff helpers\<close>

definition RETRYABLE_STATUS :: "int set" where
  "RETRYABLE_STATUS = {429, 502, 503, 504}"

definition NON_RETRYABLE_STATUS :: "int set" where
  "NON_RETRYABLE_STATUS = {400, 401, 403, 404, 409, 422}"

text \<open>
  The exceptions that \<^verbatim>\<open>except Exception as e\<close> of the loop can catch: one raised by
  the transport call (with its message), and the \<^verbatim>\<open>OverflowError\<close> of
  \<^verbatim>\<open>int(float(ra) * 1000)\<close> on an infinite float.
\<close>

datatype exn = TransportExn string | IntOfInfinity

text \<open>What leaves \<^verbatim>\<open>request\<close> as an exception.\<close>

datatype error =
    RuntimeError "exn option"
  | OverflowError

definition is_retryable :: "int option \<Rightarrow> exn option \<Rightarrow> bool" where
  "is_retryable status_code exc =
     (case exc of
        Some e \<Rightarrow> True
      | None \<Rightarrow> (case status_code of
                   Some s \<Rightarrow> s \<in> RETRYABLE_STATUS
                 | None \<Rightarrow> False))"

text \<open>
  \<^verbatim>\<open>random.uniform(a, b)\<close> is \<^verbatim>\<open>a + (b - a) * self.random()\<close>; \<open>u\<close> is the value
  drawn by \<^verbatim>\<open>random()\<close>.
\<close>

definition uniform :: "real \<Rightarrow> real \<Rightarrow> real \<Rightarrow> real" where
  "uniform a b u = a + (b - a) * u"

text \<open>
  \<^verbatim>\<open>2 ** (attempt - 1)\<close> is an integer when the exponent is not negative, and
  \<^verbatim>\<open>base * \<close> that integer converts it to a float first: from \<open>2 ^ 1024\<close> on the
  conversion raises \<^verbatim>\<open>OverflowError\<close> (int too large to convert to float), before
  \<^verbatim>\<open>min\<close> is reached. With a negative exponent the power is a float already.
\<close>

definition pow2 :: "int \<Rightarrow> real" where
  "pow2 k = (if 0 \<le> k then 2 ^ nat k else 1 / 2 ^ nat (- k))"

definition backoff_delay :: "int \<Rightarrow> real \<Rightarrow> real \<Rightarrow> real \<Rightarrow> error + real" where
  "backoff_delay attempt base cap u =
     (if 1024 \<le> attempt - 1 then Inl OverflowError
      else (let exp = min cap (base * pow2 (attempt - 1))
            in Inr (uniform (exp * 0.5) (exp * 1.5) u)))"

subsection \<open>Reading \<^verbatim>\<open>Retry-After\<close>\<close>

text \<open>
  The three ways \<^verbatim>\<open>int(float(ra) * 1000)\<close> can end: an integer, the
  \<^verbatim>\<open>ValueError\<close> of a string that is no float literal (or of a NaN), and the
  \<^verbatim>\<open>OverflowError\<close> of an infinity.
\<close>

datatype ra_parse = RaMillis int | RaValueError | RaOverflowError

definition is_ascii_digits :: "string \<Rightarrow> bool" where
  "is_ascii_digits s = (s \<noteq> [] \<and> list_all (\<lambda>c. c \<in> set ''0123456789'') s)"

definition digit_value :: "char \<Rightarrow> nat" where
  "digit_value c = of_char c - 48"

definition digits_value :: "string \<Rightarrow> nat" where
  "digits_value s = foldl (\<lambda>acc c. 10 * acc + digit_value c) 0 s"

text \<open>
  On a string of ASCII digits whose value times 1000 is at most \<open>2 ^ 53\<close> the float, the
  product and the truncation are exact, so the result is that value times 1000. Every
  other string (signs, fractions, exponents, blanks, \<^verbatim>\<open>inf\<close>, \<^verbatim>\<open>nan\<close>, text) is
  left to \<open>other\<close>, the behaviour of the Python built-ins there.
\<close>

definition int_float_millis :: "(string \<Rightarrow> ra_parse) \<Rightarrow> string \<Rightarrow> ra_parse" where
  "int_float_millis other ra =
     (if is_ascii_digits ra \<and> digits_value ra * 1000 \<le> 2 ^ 53
      then RaMillis (int (digits_value ra * 1000))
      else other ra)"

subsection \<open>The client and one logical call\<close>

record client =
  base_url :: string
  run_id :: string
  max_attempts :: int
  user_agent :: string

definition rstrip_slash :: "string \<Rightarrow> string" where
  "rstrip_slash s = rev (dropWhile (\<lambda>c. c = CHR ''/'') (rev s))"

text \<open>
  \<^verbatim>\<open>SyndigoClient.__init__\<close>; \<open>fresh\<close> is the string \<^verbatim>\<open>uuid.uuid4()\<close> would give,
  used when \<^verbatim>\<open>run_id\<close> is absent or empty.
\<close>

definition init_client :: "string \<Rightarrow> string option \<Rightarrow> int \<Rightarrow> string \<Rightarrow> string \<Rightarrow> client" where
  "init_client url rid attempts agent fresh =
     \<lparr> base_url = rstrip_slash url,
       run_id = (case rid of Some r \<Rightarrow> (if r \<noteq> [] then r else fresh) | None \<Rightarrow> fresh),
       max_attempts = max 1 attempts,
       user_agent = agent \<rparr>"

text \<open>
  A response, as far as the loop reads it: the status code, what
  \<^verbatim>\<open>resp.headers.get("Retry-After")\<close> returns, and the body.
\<close>

record response =
  status_code :: int
  retry_after :: "string option"
  content :: string

datatype send_result = Responded response | Raised string

text \<open>
  The surroundings of one logical call, each indexed by the attempt: the outcome of the
  transport call, the string of \<^verbatim>\<open>str(uuid.uuid4())\<close>, and the draw of
  \<^verbatim>\<open>random.random()\<close> (a number from 0 up to, not including, 1); and
  \<open>float_other\<close>, what \<^verbatim>\<open>int(float(ra) * 1000)\<close> gives on the strings that
  \<open>int_float_millis\<close> does not decide itself.
\<close>

record env =
  send :: "int \<Rightarrow> send_result"
  uuid4 :: "int \<Rightarrow> string"
  random_random :: "int \<Rightarrow> real"
  float_other :: "string \<Rightarrow> ra_parse"

record request_args =
  idempotency_key :: "string option"
  headers :: "(string \<rightharpoonup> string) option"

text \<open>
  Lines 80 to 90: the headers of one attempt. \<^verbatim>\<open>if idempotency_key:\<close> is false on
  \<^verbatim>\<open>None\<close> and on the empty string; \<^verbatim>\<open>update\<close> with an empty dictionary changes
  nothing, so the test \<^verbatim>\<open>if headers:\<close> needs no branch for it.
\<close>

definition build_headers :: "client \<Rightarrow> string \<Rightarrow> request_args \<Rightarrow> (string \<rightharpoonup> string)" where
  "build_headers c request_id a =
     (let h0 = [''User-Agent'' \<mapsto> user_agent c,
                ''X-Request-ID'' \<mapsto> request_id,
                ''X-Run-ID'' \<mapsto> run_id c,
                ''Accept'' \<mapsto> ''application/json''];
          h1 = (case idempotency_key a of
                  Some k \<Rightarrow> (if k \<noteq> [] then h0(''Idempotency-Key'' \<mapsto> k) else h0)
                | None \<Rightarrow> h0)
      in (case headers a of
            Some h \<Rightarrow> h1 ++ h
          | None \<Rightarrow> h1))"

text \<open>
  Lines 114 to 121. An \<^verbatim>\<open>OverflowError\<close> is no \<^verbatim>\<open>ValueError\<close>: it leaves the
  inner \<^verbatim>\<open>try\<close> and is caught by the outer one.
\<close>

definition parse_retry_after :: "(string \<Rightarrow> ra_parse) \<Rightarrow> int \<Rightarrow> string option \<Rightarrow> exn + int" where
  "parse_retry_after other status ra_header =
     (if status \<in> RETRYABLE_STATUS then
        (case ra_header of
           None \<Rightarrow> Inr 0
         | Some ra \<Rightarrow>
             (if ra = [] then Inr 0
              else (case int_float_millis other ra of
                      RaMillis n \<Rightarrow> Inr n
                    | RaValueError \<Rightarrow> Inr 0
                    | RaOverflowError \<Rightarrow> Inl IntOfInfinity)))
      else Inr 0)"

text \<open>
  Lines 92 to 174, the \<^verbatim>\<open>try\<close> statement of one attempt: either it returns a response
  from inside, or the loop goes on to the retry decision with \<^verbatim>\<open>status\<close>,
  \<^verbatim>\<open>exc\<close>, \<^verbatim>\<open>retry_after_ms\<close> and \<^verbatim>\<open>resp\<close>. When the transport raises,
  \<^verbatim>\<open>resp\<close> keeps the value of the attempt before.
\<close>

datatype try_result =
    Returned response
  | Fell "int option" "exn option" int "response option"

definition try_block :: "env \<Rightarrow> int \<Rightarrow> response option \<Rightarrow> try_result" where
  "try_block e attempt resp =
     (case send e attempt of
        Raised msg \<Rightarrow> Fell None (Some (TransportExn msg)) 0 resp
      | Responded r \<Rightarrow>
          (let status = status_code r in
           case parse_retry_after (float_other e) status (retry_after r) of
             Inl ex \<Rightarrow> Fell (Some status) (Some ex) 0 (Some r)
           | Inr ms \<Rightarrow>
               (if 200 \<le> status \<and> status < 300 then Returned r
                else if status \<in> NON_RETRYABLE_STATUS then Returned r
                else Fell (Some status) None ms (Some r))))"

text \<open>
  Lines 176 to 186: stop with a response or an exception, or sleep for a delay in
  seconds. \<^verbatim>\<open>backoff_delay\<close> is called outside the \<^verbatim>\<open>try\<close>, so what it raises
  leaves \<^verbatim>\<open>request\<close>.
\<close>

datatype decision_step = Stop "error + response" | Sleep real

definition retry_decision ::
  "client \<Rightarrow> env \<Rightarrow> int \<Rightarrow> int option \<Rightarrow> exn option \<Rightarrow> int \<Rightarrow> response option \<Rightarrow> decision_step" where
  "retry_decision c e attempt status exc retry_after_ms resp =
     (if max_attempts c \<le> attempt \<or> \<not> is_retryable status exc then
        (case resp of
           Some r \<Rightarrow> Stop (Inr r)
         | None \<Rightarrow> Stop (Inl (RuntimeError exc)))
      else if 0 < retry_after_ms then
        Sleep (real_of_int (min 10000 retry_after_ms) / 1000)
      else
        (case backoff_delay attempt 0.5 4.0 (random_random e attempt) of
           Inl err \<Rightarrow> Stop (Inl err)
         | Inr d \<Rightarrow> Sleep d))"

text \<open>
  What one logical call did: its result, the headers of every physical attempt in
  order, and the delays slept in order.
\<close>

record outcome =
  result :: "error + response"
  sent :: "(string \<rightharpoonup> string) list"
  sleeps :: "real list"

function request_loop :: "client \<Rightarrow> env \<Rightarrow> request_args \<Rightarrow> int \<Rightarrow> response option \<Rightarrow> outcome" where
  "request_loop c e a attempt resp =
     (let out_headers = build_headers c (uuid4 e attempt) a in
      case try_block e attempt resp of
        Returned r \<Rightarrow> \<lparr> result = Inr r, sent = [out_headers], sleeps = [] \<rparr>
      | Fell status exc ms resp' \<Rightarrow>
          (case retry_decision c e attempt status exc ms resp' of
             Stop res \<Rightarrow> \<lparr> result = res, sent = [out_headers], sleeps = [] \<rparr>
           | Sleep d \<Rightarrow>
               (let rest = request_loop c e a (attempt + 1) resp'
                in rest \<lparr> sent := out_headers # sent rest, sleeps := d # sleeps rest \<rparr>)))"
  by pat_completeness auto

termination request_loop
  by (relation "measure (\<lambda>(c, e, a, attempt, resp). nat (max_attempts c - attempt))")
     (auto simp: retry_decision_def split: if_splits option.splits sum.splits)

definition request :: "client \<Rightarrow> env \<Rightarrow> request_args \<Rightarrow> outcome" where
  "request c e a = request_loop c e a 1 None"

subsection \<open>The classification the loop acts on\<close>

text \<open>
  The source has no classifier of its own: the decision is spread over the loop. With no
  exception, line 142 returns on a status from 200 to 299, line 157 returns on a status
  of \<^verbatim>\<open>NON_RETRYABLE_STATUS\<close>, and line 177 asks \<^verbatim>\<open>is_retryable\<close>; with an
  exception only line 177 is reached. \<open>classify\<close> makes the tests in that order.
\<close>

datatype decision = Success | NonRetryable | Retryable

definition classify :: "int option \<Rightarrow> exn option \<Rightarrow> decision" where
  "classify status exc =
     (case exc of
        Some ex \<Rightarrow> (if is_retryable status exc then Retryable else NonRetryable)
      | None \<Rightarrow>
          (case status of
             Some s \<Rightarrow>
               (if 200 \<le> s \<and> s < 300 then Success
                else if s \<in> NON_RETRYABLE_STATUS then NonRetryable
                else if is_retryable status exc then Retryable
                else NonRetryable)
           | None \<Rightarrow> (if is_retryable status exc then Retryable else NonRetryable)))"

text \<open>
  What one iteration of the loop can do with an attempt, read off the outcome of the
  call: return the response of this attempt with nothing slept, or sleep once and hand
  over to the next attempt with \<^verbatim>\<open>resp\<close> as it then stands.
\<close>

definition returns_at_once ::
  "client \<Rightarrow> env \<Rightarrow> request_args \<Rightarrow> int \<Rightarrow> response option \<Rightarrow> response \<Rightarrow> bool" where
  "returns_at_once c e a n resp r =
     (request_loop c e a n resp =
        \<lparr> result = Inr r, sent = [build_headers c (uuid4 e n) a], sleeps = [] \<rparr>)"

definition goes_on ::
  "client \<Rightarrow> env \<Rightarrow> request_args \<Rightarrow> int \<Rightarrow> response option \<Rightarrow> response option \<Rightarrow> bool" where
  "goes_on c e a n resp resp' =
     (result (request_loop c e a n resp) = result (request_loop c e a (n + 1) resp')
      \<and> sent (request_loop c e a n resp) =
          build_headers c (uuid4 e n) a # sent (request_loop c e a (n + 1) resp')
      \<and> length (sleeps (request_loop c e a n resp)) =
          Suc (length (sleeps (request_loop c e a (n + 1) resp'))))"

subsection \<open>Concrete inputs\<close>

text \<open>
  A client as the example of the source builds it, a response with a status and a
  \<^verbatim>\<open>Retry-After\<close> value, and an environment that plays a list of transport results
  (and a fixed one after the list), numbers the request identifiers, always draws \<open>0\<close>,
  and is asked for digit strings only.
\<close>

definition example_client :: "int \<Rightarrow> client" where
  "example_client m =
     init_client ''https://api.syndigo.com/v1/'' None m ''syndigo-integration/1.0'' ''run-1''"

definition plain_response :: "int \<Rightarrow> string option \<Rightarrow> response" where
  "plain_response s ra = \<lparr> status_code = s, retry_after = ra, content = [] \<rparr>"

definition script_env :: "send_result list \<Rightarrow> send_result \<Rightarrow> env" where
  "script_env script after =
     \<lparr> send = (\<lambda>n. if 1 \<le> n \<and> n \<le> int (length script) then script ! nat (n - 1) else after),
       uuid4 = (\<lambda>n. replicate (nat n) CHR ''r''),
       random_random = (\<lambda>n. 0),
       float_other = (\<lambda>s. RaValueError) \<rparr>"

definition no_extras :: request_args where
  "no_extras = \<lparr> idempotency_key = None, headers = None \<rparr>"

text \<open>
  What the caller's own \<^verbatim>\<open>headers\<close> hold under a name, \<^verbatim>\<open>None\<close> when there are none.
\<close>

definition extra_header :: "request_args \<Rightarrow> string \<Rightarrow> string option" where
  "extra_header a name = (case headers a of Some h \<Rightarrow> h name | None \<Rightarrow> None)"

text \<open>Arguments whose own headers name an \<^verbatim>\<open>X-Request-ID\<close>.\<close>

definition pinned_args :: request_args where
  "pinned_args = \<lparr> idempotency_key = Some ''order-17'',
                    headers = Some [''X-Request-ID'' \<mapsto> ''fixed''] \<rparr>"

text \<open>
  Arguments with a key, with an empty key, and a two-step transport: a response with
  the given status and \<^verbatim>\<open>Retry-After\<close> value, then a 200.
\<close>

definition keyed_args :: request_args where
  "keyed_args = \<lparr> idempotency_key = Some ''order-17'', headers = None \<rparr>"

definition empty_key_args :: request_args where
  "empty_key_args = \<lparr> idempotency_key = Some [], headers = None \<rparr>"

definition retry_script :: "int \<Rightarrow> string option \<Rightarrow> env" where
  "retry_script s ra =
     script_env [Responded (plain_response s ra), Responded (plain_response 200 None)]
       (Raised ''unused'')"

text \<open>
  A transport that times out, answers 503, 200, 404 and 500 in turn.
\<close>

definition mixed_script :: env where
  "mixed_script =
     script_env [Raised ''timeout'', Responded (plain_response 503 None),
                 Responded (plain_response 200 None), Responded (plain_response 404 None),
                 Responded (plain_response 500 None)]
       (Raised ''unused'')"

section \<open>One iteration of the loop\<close>

declare request_loop.simps [simp del]

lemma step_return:
  "try_block e n resp = Returned r \<Longrightarrow>
   request_loop c e a n resp = \<lparr> result = Inr r, sent = [build_headers c (uuid4 e n) a], sleeps = [] \<rparr>"
  by (simp add: request_loop.simps)

lemma step_stop:
  "try_block e n resp = Fell st ex ms resp' \<Longrightarrow> retry_decision c e n st ex ms resp' = Stop res \<Longrightarrow>
   request_loop c e a n resp = \<lparr> result = res, sent = [build_headers c (uuid4 e n) a], sleeps = [] \<rparr>"
  by (simp add: request_loop.simps)

lemma step_sleep:
  "try_block e n resp = Fell st ex ms resp' \<Longrightarrow> retry_decision c e n st ex ms resp' = Sleep d \<Longrightarrow>
   request_loop c e a n resp =
     (request_loop c e a (n + 1) resp')
       \<lparr> sent := build_headers c (uuid4 e n) a # sent (request_loop c e a (n + 1) resp'),
         sleeps := d # sleeps (request_loop c e a (n + 1) resp') \<rparr>"
  by (simp add: request_loop.simps Let_def)


lemma loop_cases [case_names Returned Stop Sleep]:
  assumes "\<And>r. try_block e n resp = Returned r \<Longrightarrow> P"
    and "\<And>st ex ms resp' res. try_block e n resp = Fell st ex ms resp' \<Longrightarrow>
           retry_decision c e n st ex ms resp' = Stop res \<Longrightarrow> P"
    and "\<And>st ex ms resp' d. try_block e n resp = Fell st ex ms resp' \<Longrightarrow>
           retry_decision c e n st ex ms resp' = Sleep d \<Longrightarrow> P"
  shows P
proof (cases "try_block e n resp")
  case (Returned r)
  then show ?thesis by (rule assms(1))
next
  case (Fell st ex ms resp')
  then show ?thesis
    by (cases "retry_decision c e n st ex ms resp'") (auto intro: assms(2,3))
qed

lemma sent_length:
  "length (sent (request_loop c e a n resp)) = Suc (length (sleeps (request_loop c e a n resp)))"
proof (induction c e a n resp rule: request_loop.induct)
  case (1 c e a attempt resp)
  show ?case
  proof (cases rule: loop_cases [of e attempt resp _ c])
    case (Returned r)
    then show ?thesis by (simp add: step_return)
  next
    case (Stop st ex ms resp' res)
    then show ?thesis by (simp add: step_stop)
  next
    case (Sleep st ex ms resp' d)
    from 1 [OF refl Sleep] Sleep show ?thesis by (simp add: step_sleep)
  qed
qed

lemma sent_nth:
  "i < length (sent (request_loop c e a n resp)) \<Longrightarrow>
   sent (request_loop c e a n resp) ! i = build_headers c (uuid4 e (n + int i)) a"
proof (induction c e a n resp arbitrary: i rule: request_loop.induct)
  case (1 c e a attempt resp)
  show ?case
  proof (cases rule: loop_cases [of e attempt resp _ c])
    case (Returned r)
    with 1(2) show ?thesis by (simp add: step_return)
  next
    case (Stop st ex ms resp' res)
    with 1(2) show ?thesis by (simp add: step_stop)
  next
    case (Sleep st ex ms resp' d)
    note IH = 1(1) [OF refl Sleep]
    show ?thesis
    proof (cases i)
      case 0
      with Sleep show ?thesis by (simp add: step_sleep)
    next
      case (Suc j)
      with 1(2) Sleep have "j < length (sent (request_loop c e a (attempt + 1) resp'))"
        by (simp add: step_sleep)
      from IH [OF this] Suc Sleep show ?thesis
        by (simp add: step_sleep ac_simps)
    qed
  qed
qed


lemma try_block_Raised:
  "send e n = Raised msg \<Longrightarrow> try_block e n resp = Fell None (Some (TransportExn msg)) 0 resp"
  by (simp add: try_block_def)

lemma retryable_not_returned:
  "s \<in> RETRYABLE_STATUS \<Longrightarrow> \<not> (200 \<le> s \<and> s < 300) \<and> s \<notin> NON_RETRYABLE_STATUS"
  by (auto simp: RETRYABLE_STATUS_def NON_RETRYABLE_STATUS_def)

lemma try_block_retryable:
  assumes "send e n = Responded r" and "status_code r \<in> RETRYABLE_STATUS"
  shows "\<exists>ex ms. try_block e n resp = Fell (Some (status_code r)) ex ms (Some r)
           \<and> is_retryable (Some (status_code r)) ex
           \<and> (retry_after r = None \<longrightarrow> ms = 0)"
  using assms retryable_not_returned [OF assms(2)]
  by (auto simp: try_block_def Let_def is_retryable_def parse_retry_after_def
           split: sum.splits option.splits)

lemma retry_decision_last:
  "max_attempts c \<le> n \<Longrightarrow>
   retry_decision c e n st ex ms resp =
     Stop (case resp of Some r \<Rightarrow> Inr r | None \<Rightarrow> Inl (RuntimeError ex))"
  by (simp add: retry_decision_def split: option.splits)

lemma retry_decision_sleeps:
  assumes "n < max_attempts c" and "n \<le> 1024" and "is_retryable st ex"
  shows "\<exists>d. retry_decision c e n st ex ms resp = Sleep d"
proof (cases "0 < ms")
  case True
  with assms show ?thesis
    by (intro exI [of _ "real_of_int (min 10000 ms) / 1000"]) (simp add: retry_decision_def)
next
  case False
  with assms show ?thesis
    by (simp add: retry_decision_def backoff_delay_def Let_def)
qed

lemma retry_decision_overflow:
  "n < max_attempts c \<Longrightarrow> 1025 \<le> n \<Longrightarrow> is_retryable st ex \<Longrightarrow> ms \<le> 0 \<Longrightarrow>
   retry_decision c e n st ex ms resp = Stop (Inl OverflowError)"
  by (simp add: retry_decision_def backoff_delay_def)

lemma retryable_responses_bounded:
  assumes "\<And>k. n \<le> k \<Longrightarrow> k \<le> max_attempts c \<Longrightarrow>
             \<exists>r. send e k = Responded r \<and> status_code r \<in> RETRYABLE_STATUS"
    and "n \<le> max_attempts c" and "max_attempts c \<le> 1025"
  shows "\<exists>r. send e (max_attempts c) = Responded r
           \<and> result (request_loop c e a n resp) = Inr r
           \<and> int (length (sent (request_loop c e a n resp))) = max_attempts c - n + 1"
  using assms
proof (induction "nat (max_attempts c - n)" arbitrary: n resp)
  case 0
  then have n: "n = max_attempts c" by simp
  from 0(2) [of n] n obtain r where r: "send e n = Responded r" "status_code r \<in> RETRYABLE_STATUS"
    by auto
  from try_block_retryable [OF r] obtain ex ms
    where tb: "try_block e n resp = Fell (Some (status_code r)) ex ms (Some r)" by blast
  have "retry_decision c e n (Some (status_code r)) ex ms (Some r) = Stop (Inr r)"
    using n by (simp add: retry_decision_last)
  from step_stop [OF tb this] r n show ?case by simp
next
  case (Suc m)
  then have lt: "n < max_attempts c" "n \<le> 1024" by linarith+
  from Suc(3) [of n] lt obtain r where r: "send e n = Responded r" "status_code r \<in> RETRYABLE_STATUS"
    by auto
  from try_block_retryable [OF r] obtain ex ms
    where tb: "try_block e n resp = Fell (Some (status_code r)) ex ms (Some r)"
      and ir: "is_retryable (Some (status_code r)) ex" by blast
  from retry_decision_sleeps [OF lt ir] obtain d
    where rd: "retry_decision c e n (Some (status_code r)) ex ms (Some r) = Sleep d" by blast
  have "m = nat (max_attempts c - (n + 1))" using Suc(2) by linarith
  from Suc(1) [OF this, of "Some r"] Suc(3,5) lt
  obtain r' where "send e (max_attempts c) = Responded r'"
      "result (request_loop c e a (n + 1) (Some r)) = Inr r'"
      "int (length (sent (request_loop c e a (n + 1) (Some r)))) = max_attempts c - (n + 1) + 1"
    by force
  then show ?case by (simp add: step_sleep [OF tb rd])
qed

section \<open>Runs of retryable attempts\<close>

text \<open>
  While the budget is at most 1025 attempts, a run of retryable responses ends with the
  last response after exactly \<^verbatim>\<open>max_attempts\<close> attempts
  (\<open>retryable_responses_bounded\<close> above), and a run of transport failures ends
  with the \<^verbatim>\<open>RuntimeError\<close> that carries the last one.
\<close>

lemma transport_failures_bounded:
  assumes "\<And>k. n \<le> k \<Longrightarrow> k \<le> max_attempts c \<Longrightarrow> \<exists>msg. send e k = Raised msg"
    and "n \<le> max_attempts c" and "max_attempts c \<le> 1025"
  shows "\<exists>msg. send e (max_attempts c) = Raised msg
           \<and> result (request_loop c e a n None) = Inl (RuntimeError (Some (TransportExn msg)))
           \<and> int (length (sent (request_loop c e a n None))) = max_attempts c - n + 1"
  using assms
proof (induction "nat (max_attempts c - n)" arbitrary: n)
  case 0
  then have n: "n = max_attempts c" by simp
  from 0(2) [of n] n obtain msg where r: "send e n = Raised msg" by auto
  note tb = try_block_Raised [OF r, of None]
  have "retry_decision c e n None (Some (TransportExn msg)) 0 None
          = Stop (Inl (RuntimeError (Some (TransportExn msg))))"
    using n by (simp add: retry_decision_last)
  from step_stop [OF tb this] r n show ?case by simp
next
  case (Suc m)
  then have lt: "n < max_attempts c" "n \<le> 1024" by linarith+
  from Suc(3) [of n] lt obtain msg where r: "send e n = Raised msg" by auto
  note tb = try_block_Raised [OF r, of None]
  have "is_retryable None (Some (TransportExn msg))" by (simp add: is_retryable_def)
  from retry_decision_sleeps [OF lt this] obtain d
    where rd: "retry_decision c e n None (Some (TransportExn msg)) 0 None = Sleep d" by blast
  have "m = nat (max_attempts c - (n + 1))" using Suc(2) by linarith
  from Suc(1) [OF this] Suc(3,5) lt
  obtain msg' where "send e (max_attempts c) = Raised msg'"
      "result (request_loop c e a (n + 1) None) = Inl (RuntimeError (Some (TransportExn msg')))"
      "int (length (sent (request_loop c e a (n + 1) None))) = max_attempts c - (n + 1) + 1"
    by force
  then show ?case by (simp add: step_sleep [OF tb rd])
qed

lemma unhinted_attempt:
  assumes "(\<exists>msg. send e k = Raised msg) \<or>
           (\<exists>r. send e k = Responded r \<and> status_code r \<in> RETRYABLE_STATUS \<and> retry_after r = None)"
  shows "\<exists>st ex resp'. try_block e k resp = Fell st ex 0 resp' \<and> is_retryable st ex"
  using assms
proof
  assume "\<exists>msg. send e k = Raised msg"
  then obtain msg where "send e k = Raised msg" ..
  from try_block_Raised [OF this, of resp] show ?thesis
    by (auto simp: is_retryable_def)
next
  assume "\<exists>r. send e k = Responded r \<and> status_code r \<in> RETRYABLE_STATUS \<and> retry_after r = None"
  then obtain r where r: "send e k = Responded r" "status_code r \<in> RETRYABLE_STATUS"
    and none: "retry_after r = None" by blast
  from try_block_retryable [OF r, of resp] none show ?thesis by blast
qed

text \<open>No hint and a budget beyond 1025 attempts: the loop ends in attempt 1025.\<close>

lemma unhinted_retries_overflow:
  assumes "\<And>k. n \<le> k \<Longrightarrow> k \<le> 1025 \<Longrightarrow>
             (\<exists>msg. send e k = Raised msg) \<or>
             (\<exists>r. send e k = Responded r \<and> status_code r \<in> RETRYABLE_STATUS \<and> retry_after r = None)"
    and "n \<le> 1025" and "1026 \<le> max_attempts c"
  shows "result (request_loop c e a n resp) = Inl OverflowError
           \<and> int (length (sent (request_loop c e a n resp))) = 1025 - n + 1"
  using assms
proof (induction "nat (1025 - n)" arbitrary: n resp)
  case 0
  then have n: "n = 1025" by simp
  from 0(2) [of n] n have "(\<exists>msg. send e n = Raised msg) \<or>
      (\<exists>r. send e n = Responded r \<and> status_code r \<in> RETRYABLE_STATUS \<and> retry_after r = None)"
    by simp
  from unhinted_attempt [OF this, of resp] obtain st ex resp'
    where tb: "try_block e n resp = Fell st ex 0 resp'" and ir: "is_retryable st ex"
    by blast
  have "retry_decision c e n st ex 0 resp' = Stop (Inl OverflowError)"
    using n 0(4) ir by (simp add: retry_decision_overflow)
  from step_stop [OF tb this] n show ?case by simp
next
  case (Suc m)
  then have lt: "n < max_attempts c" "n \<le> 1024" by linarith+
  from Suc(3) [of n] lt have "(\<exists>msg. send e n = Raised msg) \<or>
      (\<exists>r. send e n = Responded r \<and> status_code r \<in> RETRYABLE_STATUS \<and> retry_after r = None)"
    by simp
  from unhinted_attempt [OF this, of resp] obtain st ex resp'
    where tb: "try_block e n resp = Fell st ex 0 resp'" and ir: "is_retryable st ex"
    by blast
  from retry_decision_sleeps [OF lt ir] obtain d
    where rd: "retry_decision c e n st ex 0 resp' = Sleep d" by blast
  have "m = nat (1025 - (n + 1))" using Suc(2) by linarith
  from Suc(1) [OF this, of resp'] Suc(3,5) lt
  have "result (request_loop c e a (n + 1) resp') = Inl OverflowError
          \<and> int (length (sent (request_loop c e a (n + 1) resp'))) = 1025 - (n + 1) + 1"
    by force
  then show ?case by (simp add: step_sleep [OF tb rd])
qed

section \<open>Headers, delays and concrete runs\<close>

lemma sent_is_built:
  assumes "h \<in> set (sent (request_loop c e a n resp))"
  shows "\<exists>k. h = build_headers c (uuid4 e k) a"
proof -
  from assms obtain i where "i < length (sent (request_loop c e a n resp))"
      "h = sent (request_loop c e a n resp) ! i"
    by (auto simp: in_set_conv_nth)
  with sent_nth [of i c e a n resp] show ?thesis by auto
qed

lemma build_headers_idempotency_key:
  "build_headers c rid a ''Idempotency-Key'' =
     (case extra_header a ''Idempotency-Key'' of
        Some v \<Rightarrow> Some v
      | None \<Rightarrow> (case idempotency_key a of
                   Some k \<Rightarrow> (if k \<noteq> [] then Some k else None)
                 | None \<Rightarrow> None))"
  by (simp add: build_headers_def extra_header_def map_add_def Let_def
           split: option.splits)

lemma build_headers_request_id:
  "build_headers c rid a ''X-Request-ID'' =
     (case extra_header a ''X-Request-ID'' of Some v \<Rightarrow> Some v | None \<Rightarrow> Some rid)"
  by (simp add: build_headers_def extra_header_def map_add_def Let_def
           split: option.splits)

lemma sleeps_after_retry:
  assumes "try_block e n resp = Fell st ex ms resp'"
    and "retry_decision c e n st ex ms resp' = Sleep d"
  shows "sleeps (request_loop c e a n resp) = d # sleeps (request_loop c e a (n + 1) resp')"
  by (simp add: step_sleep [OF assms])

text \<open>
  The range of the delay while the conversion to a float succeeds: with the defaults and
  a draw \<open>u\<close> between 0 and 1, attempts 1 to 1024 wait between half and one and a
  half times \<open>min 4 (0.5 * 2 ^ (a - 1))\<close> seconds.
\<close>

lemma backoff_delay_in_range:
  assumes "1 \<le> a" and "a \<le> 1024" and "0 \<le> u" and "u \<le> 1"
  shows "\<exists>d. backoff_delay a 0.5 4.0 u = Inr d
           \<and> 0.5 * min 4.0 (0.5 * 2 ^ nat (a - 1)) \<le> d
           \<and> d \<le> 1.5 * min 4.0 (0.5 * 2 ^ nat (a - 1))"
proof -
  define x :: real where "x = min 4.0 (0.5 * 2 ^ nat (a - 1))"
  have x: "0 \<le> x" by (simp add: x_def)
  have d: "backoff_delay a 0.5 4.0 u = Inr (uniform (x * 0.5) (x * 1.5) u)"
    using assms(1,2) by (simp add: backoff_delay_def pow2_def x_def Let_def)
  have "uniform (x * 0.5) (x * 1.5) u = x * 0.5 + x * u"
    by (simp add: uniform_def algebra_simps)
  moreover have "0 \<le> x * u" "x * u \<le> x"
    using x assms(3,4) by (simp_all add: mult_right_le_one_le)
  ultimately have "0.5 * x \<le> uniform (x * 0.5) (x * 1.5) u"
      "uniform (x * 0.5) (x * 1.5) u \<le> 1.5 * x"
    by (simp_all add: mult.commute)
  with d show ?thesis unfolding x_def by blast
qed

text \<open>
  Evaluating a call on concrete inputs.
\<close>

lemmas run_simps =
  request_def request_loop.simps try_block_def parse_retry_after_def retry_decision_def
  is_retryable_def backoff_delay_def uniform_def pow2_def int_float_millis_def
  is_ascii_digits_def digits_value_def digit_value_def script_env_def retry_script_def
  plain_response_def example_client_def init_client_def RETRYABLE_STATUS_def
  NON_RETRYABLE_STATUS_def Let_def

lemma retry_script_run:
  "length (sent (request (example_client 3) (retry_script 503 None) a)) = 2"
  by (simp add: run_simps)

section \<open>The claims\<close>

lemma nonretryable_returned:
  assumes "send e n = Responded r" and "classify (Some (status_code r)) None = NonRetryable"
  shows "request_loop c e a n resp =
           \<lparr> result = Inr r, sent = [build_headers c (uuid4 e n) a], sleeps = [] \<rparr>"
proof (cases "status_code r \<in> NON_RETRYABLE_STATUS")
  case True
  then have "status_code r \<notin> RETRYABLE_STATUS"
    by (auto simp: RETRYABLE_STATUS_def NON_RETRYABLE_STATUS_def)
  with True assms(1) have "try_block e n resp = Returned r"
    by (simp add: try_block_def parse_retry_after_def Let_def)
  then show ?thesis by (rule step_return)
next
  case False
  with assms(2) have nr: "status_code r \<notin> RETRYABLE_STATUS" and n2: "\<not> (200 \<le> status_code r \<and> status_code r < 300)"
    by (auto simp: classify_def is_retryable_def split: if_splits)
  with False assms(1) have tb: "try_block e n resp = Fell (Some (status_code r)) None 0 (Some r)"
    by (simp add: try_block_def parse_retry_after_def Let_def)
  from nr have "retry_decision c e n (Some (status_code r)) None 0 (Some r) = Stop (Inr r)"
    by (simp add: retry_decision_def is_retryable_def)
  from step_stop [OF tb this] show ?thesis .
qed

lemma retryable_goes_on:
  assumes "try_block e n resp = Fell st ex ms resp'" and "is_retryable st ex"
    and "n < max_attempts c" and "n \<le> 1024"
  shows "goes_on c e a n resp resp'"
proof -
  from retry_decision_sleeps [OF assms(3,4,2)] obtain d
    where "retry_decision c e n st ex ms resp' = Sleep d" by blast
  from step_sleep [OF assms(1) this, of a] show ?thesis
    by (simp add: goes_on_def)
qed

lemma success_returned:
  assumes "send e n = Responded r" and "200 \<le> status_code r" and "status_code r < 300"
  shows "returns_at_once c e a n resp r"
proof -
  from assms have "try_block e n resp = Returned r"
    by (simp add: try_block_def parse_retry_after_def Let_def RETRYABLE_STATUS_def)
  from step_return [OF this] show ?thesis by (simp add: returns_at_once_def)
qed

lemma classify_Retryable_status:
  "classify (Some s) None = Retryable \<Longrightarrow> s \<in> RETRYABLE_STATUS"
  by (simp add: classify_def is_retryable_def split: if_splits)

lemma classify_Success_status:
  "classify (Some s) None = Success \<Longrightarrow> 200 \<le> s \<and> s < 300"
  by (simp add: classify_def is_retryable_def split: if_splits)

text \<open>
  C1. The classification is a total function of the status and the exception. With an
  exception \<^verbatim>\<open>is_retryable\<close> is true whatever the status, and the decision is
  retryable; without one, 429, 502, 503 and 504 are retryable, 400, 401, 403, 404, 409
  and 422 are not, 200 to 299 are a success, and every other status is not retryable
  either. The loop acts on it: after a transport exception or a retryable response it
  sleeps and makes the next attempt, while attempts remain and the backoff delay exists
  (attempts up to 1024); a success and a non-retryable response, also one of an unlisted
  status, are returned by the same attempt, not retried.
\<close>

theorem classify_decisions:
  "is_retryable st (Some ex) \<and> classify st (Some ex) = Retryable
   \<and> (s1 \<in> {429, 502, 503, 504}
        \<longrightarrow> is_retryable (Some s1) None \<and> classify (Some s1) None = Retryable)
   \<and> (s2 \<in> {400, 401, 403, 404, 409, 422}
        \<longrightarrow> \<not> is_retryable (Some s2) None \<and> classify (Some s2) None = NonRetryable)
   \<and> (200 \<le> s3 \<and> s3 < 300
        \<longrightarrow> \<not> is_retryable (Some s3) None \<and> classify (Some s3) None = Success)
   \<and> (\<not> (200 \<le> s4 \<and> s4 < 300) \<and> s4 \<notin> {429, 502, 503, 504}
        \<longrightarrow> \<not> is_retryable (Some s4) None \<and> classify (Some s4) None = NonRetryable)
   \<and> (send e n0 = Raised msg \<and> n0 < max_attempts c \<and> n0 \<le> 1024
        \<longrightarrow> goes_on c e a n0 resp0 resp0)
   \<and> (send e n1 = Responded r1 \<and> classify (Some (status_code r1)) None = Retryable
          \<and> n1 < max_attempts c \<and> n1 \<le> 1024
        \<longrightarrow> goes_on c e a n1 resp1 (Some r1))
   \<and> (send e n2 = Responded r2 \<and> classify (Some (status_code r2)) None = Success
        \<longrightarrow> returns_at_once c e a n2 resp2 r2)
   \<and> (send e n3 = Responded r3 \<and> classify (Some (status_code r3)) None = NonRetryable
        \<longrightarrow> returns_at_once c e a n3 resp3 r3)"
proof -
  have "is_retryable st (Some ex) \<and> classify st (Some ex) = Retryable"
    by (simp add: classify_def is_retryable_def)
  moreover have "s1 \<in> {429, 502, 503, 504}
      \<longrightarrow> is_retryable (Some s1) None \<and> classify (Some s1) None = Retryable"
    by (auto simp: classify_def is_retryable_def RETRYABLE_STATUS_def NON_RETRYABLE_STATUS_def)
  moreover have "s2 \<in> {400, 401, 403, 404, 409, 422}
      \<longrightarrow> \<not> is_retryable (Some s2) None \<and> classify (Some s2) None = NonRetryable"
    by (auto simp: classify_def is_retryable_def RETRYABLE_STATUS_def NON_RETRYABLE_STATUS_def)
  moreover have "200 \<le> s3 \<and> s3 < 300
      \<longrightarrow> \<not> is_retryable (Some s3) None \<and> classify (Some s3) None = Success"
    by (auto simp: classify_def is_retryable_def RETRYABLE_STATUS_def)
  moreover have "\<not> (200 \<le> s4 \<and> s4 < 300) \<and> s4 \<notin> {429, 502, 503, 504}
      \<longrightarrow> \<not> is_retryable (Some s4) None \<and> classify (Some s4) None = NonRetryable"
    by (simp add: classify_def is_retryable_def RETRYABLE_STATUS_def)
  moreover have "send e n0 = Raised msg \<and> n0 < max_attempts c \<and> n0 \<le> 1024
      \<longrightarrow> goes_on c e a n0 resp0 resp0"
  proof (intro impI, elim conjE)
    assume s: "send e n0 = Raised msg" and n: "n0 < max_attempts c" "n0 \<le> 1024"
    have "is_retryable None (Some (TransportExn msg))" by (simp add: is_retryable_def)
    from retryable_goes_on [OF try_block_Raised [OF s] this n]
    show "goes_on c e a n0 resp0 resp0" .
  qed
  moreover have "send e n1 = Responded r1 \<and> classify (Some (status_code r1)) None = Retryable
        \<and> n1 < max_attempts c \<and> n1 \<le> 1024
      \<longrightarrow> goes_on c e a n1 resp1 (Some r1)"
  proof (intro impI, elim conjE)
    assume s: "send e n1 = Responded r1"
      and k: "classify (Some (status_code r1)) None = Retryable"
      and n: "n1 < max_attempts c" "n1 \<le> 1024"
    from try_block_retryable [OF s classify_Retryable_status [OF k], of resp1] obtain ex' ms
      where "try_block e n1 resp1 = Fell (Some (status_code r1)) ex' ms (Some r1)"
        and "is_retryable (Some (status_code r1)) ex'" by blast
    from retryable_goes_on [OF this n] show "goes_on c e a n1 resp1 (Some r1)" .
  qed
  moreover have "send e n2 = Responded r2 \<and> classify (Some (status_code r2)) None = Success
      \<longrightarrow> returns_at_once c e a n2 resp2 r2"
    by (auto dest: classify_Success_status intro: success_returned)
  moreover have "send e n3 = Responded r3 \<and> classify (Some (status_code r3)) None = NonRetryable
      \<longrightarrow> returns_at_once c e a n3 resp3 r3"
    by (simp add: returns_at_once_def nonretryable_returned)
  ultimately show ?thesis by blast
qed

text \<open>
  The theorem at a timeout, a 503, a 200, a 404 and a 500: the call itself makes three
  attempts and returns the 200.
\<close>

theorem classify_decisions_witness:
  "is_retryable (Some 200) (Some (TransportExn ''timeout''))
   \<and> classify (Some 200) (Some (TransportExn ''timeout'')) = Retryable
   \<and> is_retryable (Some 503) None \<and> classify (Some 503) None = Retryable
   \<and> \<not> is_retryable (Some 404) None \<and> classify (Some 404) None = NonRetryable
   \<and> \<not> is_retryable (Some 200) None \<and> classify (Some 200) None = Success
   \<and> \<not> is_retryable (Some 500) None \<and> classify (Some 500) None = NonRetryable
   \<and> goes_on (example_client 5) mixed_script no_extras 1 None None
   \<and> goes_on (example_client 5) mixed_script no_extras 2 None (Some (plain_response 503 None))
   \<and> returns_at_once (example_client 5) mixed_script no_extras 3 None (plain_response 200 None)
   \<and> returns_at_once (example_client 5) mixed_script no_extras 5 None (plain_response 500 None)
   \<and> result (request (example_client 5) mixed_script no_extras) = Inr (plain_response 200 None)
   \<and> length (sent (request (example_client 5) mixed_script no_extras)) = 3"
proof -
  let ?c = "example_client 5"
  have m: "max_attempts ?c = 5" by (simp add: example_client_def init_client_def)
  have s: "send mixed_script 1 = Raised ''timeout''"
      "send mixed_script 2 = Responded (plain_response 503 None)"
      "send mixed_script 3 = Responded (plain_response 200 None)"
      "send mixed_script 5 = Responded (plain_response 500 None)"
    by (simp_all add: mixed_script_def script_env_def)
  have p: "status_code (plain_response 503 None) = 503"
      "status_code (plain_response 200 None) = 200"
      "status_code (plain_response 500 None) = 500"
    by (simp_all add: plain_response_def)
  have run: "result (request ?c mixed_script no_extras) = Inr (plain_response 200 None)"
      "length (sent (request ?c mixed_script no_extras)) = 3"
    by (simp_all add: run_simps mixed_script_def)
  from classify_decisions [where st = "Some 200" and ex = "TransportExn ''timeout''"
      and ?s1.0 = 503 and ?s2.0 = 404 and ?s3.0 = 200 and ?s4.0 = 500
      and e = mixed_script and c = ?c and a = no_extras
      and ?n0.0 = 1 and msg = "''timeout''" and ?resp0.0 = None
      and ?n1.0 = 2 and ?r1.0 = "plain_response 503 None" and ?resp1.0 = None
      and ?n2.0 = 3 and ?r2.0 = "plain_response 200 None" and ?resp2.0 = None
      and ?n3.0 = 5 and ?r3.0 = "plain_response 500 None" and ?resp3.0 = None]
    m s p run
  show ?thesis by simp
qed

text \<open>
  C2. The claim: a call whose every attempt answers 503 makes exactly
  \<^verbatim>\<open>max_attempts\<close> attempts and returns the last 503. With a budget of 1026
  attempts and no \<^verbatim>\<open>Retry-After\<close>, the call below makes 1025 attempts and
  ends with the \<^verbatim>\<open>OverflowError\<close> of \<^verbatim>\<open>backoff_delay(1025)\<close>.
\<close>

theorem all_503_overflow_at_1026:
  "result (request (example_client 1026)
      (script_env [] (Responded (plain_response 503 None))) no_extras) = Inl OverflowError
   \<and> length (sent (request (example_client 1026)
      (script_env [] (Responded (plain_response 503 None))) no_extras)) = 1025"
proof -
  let ?e = "script_env [] (Responded (plain_response 503 None))"
  have "\<And>k. (\<exists>msg. send ?e k = Raised msg) \<or>
      (\<exists>r. send ?e k = Responded r \<and> status_code r \<in> RETRYABLE_STATUS \<and> retry_after r = None)"
    by (auto simp: script_env_def plain_response_def RETRYABLE_STATUS_def)
  moreover have "1026 \<le> max_attempts (example_client 1026)"
    by (simp add: example_client_def init_client_def)
  ultimately have "result (request_loop (example_client 1026) ?e no_extras 1 None) = Inl OverflowError
      \<and> int (length (sent (request_loop (example_client 1026) ?e no_extras 1 None))) = 1025 - 1 + 1"
    by (intro unhinted_retries_overflow) simp_all
  then show ?thesis by (simp add: request_def)
qed

text \<open>
  C3. The claim: a call whose every attempt fails in the transport makes exactly
  \<^verbatim>\<open>max_attempts\<close> attempts and raises an error that carries the last
  transport exception. With a budget of 1026 attempts the call below makes 1025 attempts
  and ends with the \<^verbatim>\<open>OverflowError\<close> of \<^verbatim>\<open>backoff_delay(1025)\<close>.
\<close>

theorem all_timeouts_overflow_at_1026:
  "result (request (example_client 1026) (script_env [] (Raised ''timed out'')) no_extras)
     = Inl OverflowError
   \<and> length (sent (request (example_client 1026) (script_env [] (Raised ''timed out'')) no_extras))
     = 1025"
proof -
  let ?e = "script_env [] (Raised ''timed out'')"
  have "\<And>k. (\<exists>msg. send ?e k = Raised msg) \<or>
      (\<exists>r. send ?e k = Responded r \<and> status_code r \<in> RETRYABLE_STATUS \<and> retry_after r = None)"
    by (auto simp: script_env_def)
  moreover have "1026 \<le> max_attempts (example_client 1026)"
    by (simp add: example_client_def init_client_def)
  ultimately have "result (request_loop (example_client 1026) ?e no_extras 1 None) = Inl OverflowError
      \<and> int (length (sent (request_loop (example_client 1026) ?e no_extras 1 None))) = 1025 - 1 + 1"
    by (intro unhinted_retries_overflow) simp_all
  then show ?thesis by (simp add: request_def)
qed

text \<open>
  C4. The claim: for every attempt index from 1 on the delay lies between half and one
  and a half times the capped exponential. At attempt 1025 the function returns no
  delay: it raises \<^verbatim>\<open>OverflowError\<close>, whatever the draw.
\<close>

theorem backoff_delay_overflows_at_1025:
  "backoff_delay 1025 0.5 4.0 u = Inl OverflowError"
  by (simp add: backoff_delay_def)

text \<open>
  C5, as amended. On a retryable response with attempts left: when
  \<^verbatim>\<open>Retry-After\<close> is present, not empty, and
  \<^verbatim>\<open>int(float(ra) * 1000)\<close> is a positive number of milliseconds, the loop
  sleeps the smaller of that number and 10000, in seconds; when the header is absent,
  empty, no number, infinite, or gives zero or fewer milliseconds, the loop sleeps what
  \<^verbatim>\<open>backoff_delay\<close> returns for the attempt.
\<close>

theorem retry_after_hint_delay:
  assumes "send e n = Responded r" and "status_code r \<in> RETRYABLE_STATUS"
    and "n < max_attempts c"
  shows "(retry_after r = Some ra \<and> ra \<noteq> []
            \<and> int_float_millis (float_other e) ra = RaMillis ms \<and> 0 < ms
          \<longrightarrow> sleeps (request_loop c e a n resp) =
                real_of_int (min 10000 ms) / 1000 # sleeps (request_loop c e a (n + 1) (Some r)))
       \<and> ((retry_after r = None \<or> retry_after r = Some []
             \<or> (retry_after r = Some ra'
                 \<and> (int_float_millis (float_other e) ra' = RaValueError
                     \<or> int_float_millis (float_other e) ra' = RaOverflowError
                     \<or> (int_float_millis (float_other e) ra' = RaMillis ms' \<and> ms' \<le> 0))))
            \<and> backoff_delay n 0.5 4.0 (random_random e n) = Inr d
          \<longrightarrow> sleeps (request_loop c e a n resp) =
                d # sleeps (request_loop c e a (n + 1) (Some r)))"
proof (intro conjI impI)
  note nr = retryable_not_returned [OF assms(2)]
  assume h: "retry_after r = Some ra \<and> ra \<noteq> []
      \<and> int_float_millis (float_other e) ra = RaMillis ms \<and> 0 < ms"
  with assms nr have tb: "try_block e n resp = Fell (Some (status_code r)) None ms (Some r)"
    by (simp add: try_block_def parse_retry_after_def Let_def)
  from h assms have "retry_decision c e n (Some (status_code r)) None ms (Some r)
      = Sleep (real_of_int (min 10000 ms) / 1000)"
    by (simp add: retry_decision_def is_retryable_def)
  from sleeps_after_retry [OF tb this]
  show "sleeps (request_loop c e a n resp) =
      real_of_int (min 10000 ms) / 1000 # sleeps (request_loop c e a (n + 1) (Some r))" .
next
  note nr = retryable_not_returned [OF assms(2)]
  assume h: "(retry_after r = None \<or> retry_after r = Some []
      \<or> (retry_after r = Some ra'
          \<and> (int_float_millis (float_other e) ra' = RaValueError
              \<or> int_float_millis (float_other e) ra' = RaOverflowError
              \<or> (int_float_millis (float_other e) ra' = RaMillis ms' \<and> ms' \<le> 0))))
      \<and> backoff_delay n 0.5 4.0 (random_random e n) = Inr d"
  then have "case parse_retry_after (float_other e) (status_code r) (retry_after r) of
      Inl x \<Rightarrow> True | Inr ms \<Rightarrow> ms \<le> 0"
    by (auto simp: parse_retry_after_def)
  with assms(1) nr have "\<exists>ex ms. try_block e n resp = Fell (Some (status_code r)) ex ms (Some r)
      \<and> ms \<le> 0"
    by (cases "parse_retry_after (float_other e) (status_code r) (retry_after r)")
       (simp_all add: try_block_def Let_def)
  then obtain ex ms
    where tb: "try_block e n resp = Fell (Some (status_code r)) ex ms (Some r)"
      and ms: "ms \<le> 0"
    by blast
  from h assms ms have "retry_decision c e n (Some (status_code r)) ex ms (Some r) = Sleep d"
    by (simp add: retry_decision_def is_retryable_def split: option.splits)
  from sleeps_after_retry [OF tb this]
  show "sleeps (request_loop c e a n resp) = d # sleeps (request_loop c e a (n + 1) (Some r))" .
qed

text \<open>
  The example of the specification, \<^verbatim>\<open>Retry-After: 120\<close> on a 429, sleeps 10
  seconds; without the header the first retry sleeps the backoff delay.
\<close>

theorem retry_after_hint_delay_witness:
  "sleeps (request (example_client 3) (retry_script 429 (Some ''120'')) no_extras) = [10]
   \<and> sleeps (request (example_client 3) (retry_script 429 None) no_extras) = [1 / 4]"
proof -
  let ?c = "example_client 3"
  let ?r = "plain_response 429 (Some ''120'')" and ?q = "plain_response 429 None"
  let ?e = "retry_script 429 (Some ''120'')" and ?f = "retry_script 429 None"
  have c: "1 < max_attempts ?c" by (simp add: example_client_def init_client_def)
  have e: "send ?e 1 = Responded ?r" "status_code ?r \<in> RETRYABLE_STATUS"
      "retry_after ?r = Some ''120''"
      "int_float_millis (float_other ?e) ''120'' = RaMillis 120000"
    by (simp_all add: retry_script_def script_env_def plain_response_def RETRYABLE_STATUS_def
          int_float_millis_def is_ascii_digits_def digits_value_def digit_value_def)
  have f: "send ?f 1 = Responded ?q" "status_code ?q \<in> RETRYABLE_STATUS"
      "retry_after ?q = None"
      "backoff_delay 1 0.5 4.0 (random_random ?f 1) = Inr (1 / 4)"
    by (simp_all add: retry_script_def script_env_def plain_response_def RETRYABLE_STATUS_def
          backoff_delay_def uniform_def pow2_def)
  have rest: "sleeps (request_loop ?c ?e no_extras (1 + 1) (Some ?r)) = []"
      "sleeps (request_loop ?c ?f no_extras (1 + 1) (Some ?q)) = []"
    by (simp_all add: run_simps)
  from retry_after_hint_delay [where e = ?e and r = ?r and c = ?c and ra = "''120''"
         and ms = 120000 and a = no_extras and resp = None, OF e(1,2) c]
       retry_after_hint_delay [where e = ?f and r = ?q and c = ?c and d = "1 / 4"
         and a = no_extras and resp = None, OF f(1,2) c]
       e f rest
  show ?thesis by (simp add: request_def)
qed

text \<open>
  C5 as stated fails on \<^verbatim>\<open>Retry-After: 0\<close>: the value is a number of
  seconds, yet line 183 takes only a positive one, and the loop sleeps the backoff delay
  instead of 0 seconds.
\<close>

theorem zero_retry_after_counterexample:
  "int_float_millis (float_other (retry_script 429 (Some ''0''))) ''0'' = RaMillis 0
   \<and> backoff_delay 1 0.5 4.0 0 = Inr (1 / 4)
   \<and> sleeps (request (example_client 3) (retry_script 429 (Some ''0'')) no_extras) = [1 / 4]
   \<and> sleeps (request (example_client 3) (retry_script 429 (Some ''0'')) no_extras)
        \<noteq> [real_of_int (min 10000 0) / 1000]"
  by (simp add: run_simps)

text \<open>
  C6. A call whose first attempt answers 404 makes that one attempt, returns the
  response and does not sleep.
\<close>

theorem first_404_returns_at_once:
  assumes "send e 1 = Responded r" and "status_code r = 404"
  shows "request c e a = \<lparr> result = Inr r, sent = [build_headers c (uuid4 e 1) a], sleeps = [] \<rparr>"
proof -
  from assms have "try_block e 1 None = Returned r"
    by (simp add: try_block_def parse_retry_after_def Let_def RETRYABLE_STATUS_def NON_RETRYABLE_STATUS_def)
  then show ?thesis unfolding request_def by (rule step_return)
qed

theorem first_404_returns_at_once_witness:
  "request (example_client 3)
     (script_env [Responded (plain_response 404 None)] (Responded (plain_response 200 None))) no_extras =
   \<lparr> result = Inr (plain_response 404 None),
     sent = [build_headers (example_client 3) ''r'' no_extras], sleeps = [] \<rparr>"
proof -
  let ?e = "script_env [Responded (plain_response 404 None)] (Responded (plain_response 200 None))"
  have "send ?e 1 = Responded (plain_response 404 None)" "uuid4 ?e 1 = ''r''"
    "status_code (plain_response 404 None) = 404"
    by (simp_all add: script_env_def plain_response_def)
  with first_404_returns_at_once [of ?e "plain_response 404 None" "example_client 3" no_extras]
  show ?thesis by simp
qed

text \<open>
  C7. With a budget of 3, a retryable first attempt and a 200 on the second, the call
  makes two attempts, sleeps once and returns the second response.
\<close>

theorem success_on_second_attempt:
  assumes "max_attempts c = 3"
    and "(\<exists>msg. send e 1 = Raised msg) \<or>
         (\<exists>r. send e 1 = Responded r \<and> status_code r \<in> RETRYABLE_STATUS)"
    and "send e 2 = Responded r2" and "status_code r2 = 200"
  shows "result (request c e a) = Inr r2
         \<and> length (sent (request c e a)) = 2
         \<and> length (sleeps (request c e a)) = 1"
proof -
  from assms(2) obtain st ex ms resp'
    where tb: "try_block e 1 None = Fell st ex ms resp'" and ir: "is_retryable st ex"
  proof
    assume "\<exists>msg. send e 1 = Raised msg"
    then obtain msg where "send e 1 = Raised msg" ..
    from try_block_Raised [OF this, of None] that show thesis
      by (simp add: is_retryable_def)
  next
    assume "\<exists>r. send e 1 = Responded r \<and> status_code r \<in> RETRYABLE_STATUS"
    then obtain r where "send e 1 = Responded r" "status_code r \<in> RETRYABLE_STATUS" by blast
    from try_block_retryable [OF this, of None] that show thesis by blast
  qed
  from assms(1) have "(1::int) < max_attempts c" "(1::int) \<le> 1024" by simp_all
  from retry_decision_sleeps [OF this ir] obtain d
    where rd: "retry_decision c e 1 st ex ms resp' = Sleep d" by blast
  from assms(3,4) have "try_block e 2 resp' = Returned r2"
    by (simp add: try_block_def parse_retry_after_def Let_def RETRYABLE_STATUS_def)
  from step_return [OF this]
  have "request_loop c e a (1 + 1) resp' =
          \<lparr> result = Inr r2, sent = [build_headers c (uuid4 e 2) a], sleeps = [] \<rparr>"
    by simp
  with step_sleep [OF tb rd, of a] show ?thesis
    by (simp add: request_def)
qed

theorem success_on_second_attempt_witness:
  "result (request (example_client 3)
      (script_env [Responded (plain_response 503 None), Responded (plain_response 200 None)]
         (Raised ''unused'')) no_extras) = Inr (plain_response 200 None)
   \<and> length (sent (request (example_client 3)
      (script_env [Responded (plain_response 503 None), Responded (plain_response 200 None)]
         (Raised ''unused'')) no_extras)) = 2
   \<and> length (sleeps (request (example_client 3)
      (script_env [Responded (plain_response 503 None), Responded (plain_response 200 None)]
         (Raised ''unused'')) no_extras)) = 1"
proof -
  let ?e = "script_env [Responded (plain_response 503 None), Responded (plain_response 200 None)]
              (Raised ''unused'')"
  have m: "max_attempts (example_client 3) = 3"
    by (simp add: example_client_def init_client_def)
  have s1: "(\<exists>msg. send ?e 1 = Raised msg) \<or>
            (\<exists>r. send ?e 1 = Responded r \<and> status_code r \<in> RETRYABLE_STATUS)"
    by (simp add: script_env_def plain_response_def RETRYABLE_STATUS_def)
  have s2: "send ?e 2 = Responded (plain_response 200 None)"
    by (simp add: script_env_def)
  have p: "status_code (plain_response 200 None) = 200"
    by (simp add: plain_response_def)
  from success_on_second_attempt [OF m s1 s2 p, of no_extras] show ?thesis .
qed

text \<open>
  C8, as amended. Every attempt of a call carries the same
  \<^verbatim>\<open>Idempotency-Key\<close> header: the caller's key, when it is not empty and the
  caller's own headers name none. Two attempts carry different
  \<^verbatim>\<open>X-Request-ID\<close> headers when \<^verbatim>\<open>uuid4\<close> gave them different
  strings and the caller's own headers name none; one that the caller names replaces
  the generated one on every attempt.
\<close>

theorem stable_key_fresh_request_id:
  assumes "i < length (sent (request c e a))" and "j < length (sent (request c e a))"
  shows "(sent (request c e a) ! i) ''Idempotency-Key'' =
           (sent (request c e a) ! j) ''Idempotency-Key''
     \<and> (extra_header a ''Idempotency-Key'' = None \<and> idempotency_key a = Some k \<and> k \<noteq> []
          \<longrightarrow> (sent (request c e a) ! i) ''Idempotency-Key'' = Some k)
     \<and> (extra_header a ''X-Request-ID'' = None \<and> uuid4 e (1 + int i) \<noteq> uuid4 e (1 + int j)
          \<longrightarrow> (sent (request c e a) ! i) ''X-Request-ID'' \<noteq>
                (sent (request c e a) ! j) ''X-Request-ID'')
     \<and> (extra_header a ''X-Request-ID'' = Some v
          \<longrightarrow> (sent (request c e a) ! i) ''X-Request-ID'' = Some v)"
proof -
  from assms have "sent (request c e a) ! i = build_headers c (uuid4 e (1 + int i)) a"
    and "sent (request c e a) ! j = build_headers c (uuid4 e (1 + int j)) a"
    by (simp_all add: request_def sent_nth)
  then show ?thesis
    by (simp add: build_headers_idempotency_key build_headers_request_id)
qed

theorem stable_key_fresh_request_id_witness:
  "(sent (request (example_client 3) (retry_script 503 None) keyed_args) ! 0) ''Idempotency-Key'' =
     (sent (request (example_client 3) (retry_script 503 None) keyed_args) ! 1) ''Idempotency-Key''
   \<and> (sent (request (example_client 3) (retry_script 503 None) keyed_args) ! 0) ''Idempotency-Key'' =
       Some ''order-17''
   \<and> (sent (request (example_client 3) (retry_script 503 None) keyed_args) ! 0) ''X-Request-ID'' \<noteq>
     (sent (request (example_client 3) (retry_script 503 None) keyed_args) ! 1) ''X-Request-ID''
   \<and> (sent (request (example_client 3) (retry_script 503 None) pinned_args) ! 0) ''X-Request-ID'' =
       Some ''fixed''"
proof -
  have len: "(0::nat) < length (sent (request (example_client 3) (retry_script 503 None) keyed_args))"
      "(1::nat) < length (sent (request (example_client 3) (retry_script 503 None) keyed_args))"
      "(0::nat) < length (sent (request (example_client 3) (retry_script 503 None) pinned_args))"
    by (simp_all add: retry_script_run)
  have a: "extra_header keyed_args ''Idempotency-Key'' = None"
      "idempotency_key keyed_args = Some ''order-17''"
      "extra_header keyed_args ''X-Request-ID'' = None"
      "extra_header pinned_args ''X-Request-ID'' = Some ''fixed''"
    by (simp_all add: keyed_args_def pinned_args_def extra_header_def)
  have u: "uuid4 (retry_script 503 None) (1 + int 0) \<noteq> uuid4 (retry_script 503 None) (1 + int 1)"
    by (simp add: retry_script_def script_env_def numeral_2_eq_2)
  from stable_key_fresh_request_id [OF len(1) len(2), of "''order-17''" "''none''"]
       stable_key_fresh_request_id [OF len(3) len(3), of "''none''" "''fixed''"] a u
  show ?thesis by auto
qed

text \<open>
  C8 as stated fails when the caller passes an \<^verbatim>\<open>X-Request-ID\<close> header of
  their own: line 90 lets it win, and both attempts of the call below carry it.
\<close>

theorem pinned_request_id_counterexample:
  "length (sent (request (example_client 3) (retry_script 503 None) pinned_args)) = 2
   \<and> (sent (request (example_client 3) (retry_script 503 None) pinned_args) ! 0) ''X-Request-ID'' =
     (sent (request (example_client 3) (retry_script 503 None) pinned_args) ! 1) ''X-Request-ID''"
proof -
  let ?run = "request (example_client 3) (retry_script 503 None) pinned_args"
  have len: "length (sent ?run) = 2" by (rule retry_script_run)
  then have "sent ?run ! 0 = build_headers (example_client 3) (uuid4 (retry_script 503 None) (1 + int 0)) pinned_args"
    and "sent ?run ! 1 = build_headers (example_client 3) (uuid4 (retry_script 503 None) (1 + int 1)) pinned_args"
    unfolding request_def by (simp_all only: sent_nth zero_less_numeral one_less_numeral_iff semiring_norm)
  with len show ?thesis
    by (simp add: build_headers_request_id extra_header_def pinned_args_def)
qed

text \<open>
  C9. The constructor stores \<^verbatim>\<open>max(1, max_attempts)\<close>, which is at least 1,
  and every call makes at least one attempt.
\<close>

theorem at_least_one_attempt:
  "max_attempts (init_client url rid m agent fresh) = max 1 m
   \<and> 1 \<le> max_attempts (init_client url rid m agent fresh)
   \<and> 1 \<le> length (sent (request (init_client url rid m agent fresh) e a))"
  by (simp add: init_client_def request_def sent_length)

text \<open>
  C10. With the empty string as the key and no \<^verbatim>\<open>Idempotency-Key\<close> among
  the caller's own headers, no attempt carries an \<^verbatim>\<open>Idempotency-Key\<close> header.
\<close>

theorem empty_key_sends_no_header:
  assumes "idempotency_key a = Some []" and "extra_header a ''Idempotency-Key'' = None"
  shows "\<forall>h \<in> set (sent (request c e a)). h ''Idempotency-Key'' = None"
proof
  fix h assume "h \<in> set (sent (request c e a))"
  then obtain k where "h = build_headers c (uuid4 e k) a"
    unfolding request_def by (blast dest: sent_is_built)
  with assms show "h ''Idempotency-Key'' = None"
    by (simp add: build_headers_idempotency_key)
qed

theorem empty_key_sends_no_header_witness:
  "length (sent (request (example_client 3) (retry_script 503 None) empty_key_args)) = 2
   \<and> (sent (request (example_client 3) (retry_script 503 None) empty_key_args) ! 0)
        ''Idempotency-Key'' = None
   \<and> (sent (request (example_client 3) (retry_script 503 None) empty_key_args) ! 1)
        ''Idempotency-Key'' = None"
proof -
  let ?run = "request (example_client 3) (retry_script 503 None) empty_key_args"
  have k: "idempotency_key empty_key_args = Some []"
    and x: "extra_header empty_key_args ''Idempotency-Key'' = None"
    by (simp_all add: empty_key_args_def extra_header_def)
  have len: "length (sent ?run) = 2" by (rule retry_script_run)
  then have "sent ?run ! 0 \<in> set (sent ?run)" "sent ?run ! 1 \<in> set (sent ?run)"
    by simp_all
  with empty_key_sends_no_header [OF k x, of "example_client 3" "retry_script 503 None"] len
  show ?thesis by blast
qed

end
